theory Spec2Isabelle
  imports Main
begin

section \<open>The embedder: a shallow embedding of \<^verbatim>\<open>src/embedder.py\<close>\<close>

text \<open>
  The program is a client of three libraries: the sentence-embedding model, the vector
  store's client and the UUID generator. Their behaviour is a parameter of the model (the
  record \<open>env\<close>); what the program itself does with them is translated function by
  function. Every call the program issues to the store's client is appended to a trace, so
  that "which calls were issued, with which arguments, in which order" is a property of the
  final state. The program never reads a stored object back, so the store's state keeps the
  schema only (it decides the answer of \<^verbatim>\<open>collections.exists\<close>); the records written are the
  arguments of the insert calls in the trace. Console output does not influence control
  flow or the store and is left out.
\<close>

subsection \<open>Exceptions\<close>

text \<open>A raised exception is identified by the name of its class.\<close>

type_synonym exn = string

definition AttributeError :: exn where
  "AttributeError = ''AttributeError''"

definition ConfigurationError :: exn where
  "ConfigurationError = ''ConfigurationError''"

subsection \<open>Data of the store's client library\<close>

datatype data_type = TEXT | INT | NUMBER | BOOL

record property =
  prop_name :: string
  prop_data_type :: data_type
  prop_description :: string

text \<open>\<^verbatim>\<open>Configure.Vectorizer.none()\<close> is \<open>Vectorizer_none\<close>; any other module is named.\<close>

datatype vectorizer = Vectorizer_none | Vectorizer_module string

record collection_config =
  coll_description :: string
  coll_vectorizer :: vectorizer
  coll_properties :: "property list"

text \<open>
  A Python dict literal is an association list in insertion order. A vector is the list
  of its components; \<^verbatim>\<open>tolist()\<close> keeps the values and their order, so it is the identity
  here.
\<close>

record 'f data_object =
  properties :: "(string \<times> string) list"
  vector :: "'f list"

type_synonym client = nat

datatype 'f call =
    Connect string string
  | CollectionsExists client string
  | CollectionsCreate client string string vectorizer "property list"
  | CollectionsGet client string
  | DataInsert client string "(string \<times> string) list" "'f list"
  | DataInsertMany client string "'f data_object list"
  | ClientClose client

subsection \<open>The model, the environment and the world\<close>

text \<open>
  \<^verbatim>\<open>SentenceTransformer.encode\<close> takes one string or a list of strings; the two uses are
  two fields. Either may raise.
\<close>

record 'f sentence_transformer =
  encode :: "string \<Rightarrow> exn + 'f list"
  encode_list :: "string list \<Rightarrow> exn + 'f list list"

text \<open>
  The environment: loading a model by name; whether a call to the store's client raises,
  given the calls issued before it; and the sequence of values \<^verbatim>\<open>str(uuid.uuid4())\<close>
  yields.
\<close>

record 'f env =
  SentenceTransformer :: "string \<Rightarrow> exn + 'f sentence_transformer"
  fault :: "'f call list \<Rightarrow> 'f call \<Rightarrow> exn option"
  uuid_stream :: "nat \<Rightarrow> string"

record 'f world =
  calls :: "'f call list"
  collections :: "(string \<times> collection_config) list"
  open_conns :: "client list"
  next_client :: client
  uuid_draws :: nat

text \<open>An instance of the class. \<open>client = None\<close>: the attribute was never assigned.\<close>

record 'f embedder =
  model :: "'f sentence_transformer"
  client :: "client option"

subsection \<open>The libraries' operations\<close>

definition issue :: "'f env \<Rightarrow> 'f call \<Rightarrow> 'f world \<Rightarrow> exn option \<times> 'f world" where
  "issue env c w = (fault env (calls w) c, w\<lparr>calls := calls w @ [c]\<rparr>)"

definition uuid4 :: "'f env \<Rightarrow> 'f world \<Rightarrow> string \<times> 'f world" where
  "uuid4 env w = (uuid_stream env (uuid_draws w), w\<lparr>uuid_draws := Suc (uuid_draws w)\<rparr>)"

definition connect_to_weaviate_cloud ::
    "'f env \<Rightarrow> string \<Rightarrow> string \<Rightarrow> 'f world \<Rightarrow> (exn + client) \<times> 'f world" where
  "connect_to_weaviate_cloud env cluster_url api_key w =
     (case issue env (Connect cluster_url api_key) w of
        (Some e, w1) \<Rightarrow> (Inl e, w1)
      | (None, w1) \<Rightarrow>
          (Inr (next_client w1),
           w1\<lparr>open_conns := open_conns w1 @ [next_client w1],
              next_client := Suc (next_client w1)\<rparr>))"

definition collections_exists ::
    "'f env \<Rightarrow> client \<Rightarrow> string \<Rightarrow> 'f world \<Rightarrow> (exn + bool) \<times> 'f world" where
  "collections_exists env c name w =
     (case issue env (CollectionsExists c name) w of
        (Some e, w1) \<Rightarrow> (Inl e, w1)
      | (None, w1) \<Rightarrow> (Inr (map_of (collections w1) name \<noteq> None), w1))"

text \<open>The store rejects the creation of a collection whose name is taken.\<close>

definition collections_create ::
    "'f env \<Rightarrow> client \<Rightarrow> string \<Rightarrow> string \<Rightarrow> vectorizer \<Rightarrow> property list \<Rightarrow> 'f world
      \<Rightarrow> (exn + unit) \<times> 'f world" where
  "collections_create env c name description vectorizer_config props w =
     (case issue env (CollectionsCreate c name description vectorizer_config props) w of
        (Some e, w1) \<Rightarrow> (Inl e, w1)
      | (None, w1) \<Rightarrow>
          (if map_of (collections w1) name \<noteq> None
           then (Inl ''UnexpectedStatusCodeError'', w1)
           else (Inr (),
                 w1\<lparr>collections := collections w1 @
                    [(name, \<lparr>coll_description = description,
                             coll_vectorizer = vectorizer_config,
                             coll_properties = props\<rparr>)]\<rparr>)))"

text \<open>A collection handle is the client and the collection's name.\<close>

definition collections_get ::
    "'f env \<Rightarrow> client \<Rightarrow> string \<Rightarrow> 'f world \<Rightarrow> (exn + client \<times> string) \<times> 'f world" where
  "collections_get env c name w =
     (case issue env (CollectionsGet c name) w of
        (Some e, w1) \<Rightarrow> (Inl e, w1)
      | (None, w1) \<Rightarrow> (Inr (c, name), w1))"

definition data_insert ::
    "'f env \<Rightarrow> client \<times> string \<Rightarrow> (string \<times> string) list \<Rightarrow> 'f list \<Rightarrow> 'f world
      \<Rightarrow> (exn + unit) \<times> 'f world" where
  "data_insert env collection props vec w =
     (case issue env (DataInsert (fst collection) (snd collection) props vec) w of
        (Some e, w1) \<Rightarrow> (Inl e, w1)
      | (None, w1) \<Rightarrow> (Inr (), w1))"

definition data_insert_many ::
    "'f env \<Rightarrow> client \<times> string \<Rightarrow> 'f data_object list \<Rightarrow> 'f world
      \<Rightarrow> (exn + unit) \<times> 'f world" where
  "data_insert_many env collection objs w =
     (case issue env (DataInsertMany (fst collection) (snd collection) objs) w of
        (Some e, w1) \<Rightarrow> (Inl e, w1)
      | (None, w1) \<Rightarrow> (Inr (), w1))"

definition client_close :: "'f env \<Rightarrow> client \<Rightarrow> 'f world \<Rightarrow> (exn + unit) \<times> 'f world" where
  "client_close env c w =
     (case issue env (ClientClose c) w of
        (Some e, w1) \<Rightarrow> (Inl e, w1)
      | (None, w1) \<Rightarrow> (Inr (), w1\<lparr>open_conns := removeAll c (open_conns w1)\<rparr>))"

subsection \<open>The class \<^verbatim>\<open>BertEmbedder\<close>\<close>

text \<open>A keyword argument is omitted (the default applies) or passed.\<close>

datatype 'a arg = Omitted | Passed 'a

fun arg_value :: "'a \<Rightarrow> 'a arg \<Rightarrow> 'a" where
  "arg_value d Omitted = d"
| "arg_value d (Passed x) = x"

definition default_model_name :: string where
  "default_model_name = ''all-MiniLM-L6-v2''"

definition default_weaviate_url :: "string option" where
  "default_weaviate_url =
     Some ''https://osvcpzz6sjaaloedhjbha.c0.europe-west3.gcp.weaviate.cloud''"

definition default_weaviate_api_key :: "string option" where
  "default_weaviate_api_key =
     Some ''N2plUjYzemxTVHhXY1poNl9SZzA2bisxdjZQYTlPTTJvUEI2L0dlVkFEN1d1bHJwOTR1bmFNZTBtRHFNPV92MjAw''"

text \<open>Truth value of an \<^verbatim>\<open>Optional[str]\<close>: \<^verbatim>\<open>None\<close> and the empty string are false.\<close>

fun truthy :: "string option \<Rightarrow> bool" where
  "truthy None = False"
| "truthy (Some s) = (s \<noteq> [])"

definition TextEmbedding :: string where
  "TextEmbedding = ''TextEmbedding''"

definition schema_properties :: "property list" where
  "schema_properties =
     [\<lparr>prop_name = ''text'', prop_data_type = TEXT,
       prop_description = ''The original text content''\<rparr>,
      \<lparr>prop_name = ''text_id'', prop_data_type = TEXT,
       prop_description = ''Unique identifier for the text''\<rparr>]"

text \<open>\<^verbatim>\<open>_create_schema\<close>. Reading \<^verbatim>\<open>self.client\<close> raises when it was never assigned.\<close>

definition create_schema :: "'f env \<Rightarrow> 'f embedder \<Rightarrow> 'f world \<Rightarrow> (exn + unit) \<times> 'f world" where
  "create_schema env self w =
     (case client self of
        None \<Rightarrow> (Inl AttributeError, w)
      | Some c \<Rightarrow>
          (case collections_exists env c TextEmbedding w of
             (Inl e, w1) \<Rightarrow> (Inl e, w1)
           | (Inr present, w1) \<Rightarrow>
               (if \<not> present
                then collections_create env c TextEmbedding
                       ''Text documents with BERT embeddings'' Vectorizer_none
                       schema_properties w1
                else (Inr (), w1))))"

text \<open>\<^verbatim>\<open>__init__\<close>: load the model, connect when both settings are truthy, ensure the schema.\<close>

definition BertEmbedder_init ::
    "'f env \<Rightarrow> string arg \<Rightarrow> string option arg \<Rightarrow> string option arg \<Rightarrow> 'f world
      \<Rightarrow> (exn + 'f embedder) \<times> 'f world" where
  "BertEmbedder_init env model_name_arg url_arg key_arg w =
     (let model_name = arg_value default_model_name model_name_arg;
          weaviate_url = arg_value default_weaviate_url url_arg;
          weaviate_api_key = arg_value default_weaviate_api_key key_arg
      in case SentenceTransformer env model_name of
           Inl e \<Rightarrow> (Inl e, w)
         | Inr m \<Rightarrow>
             (case (if truthy weaviate_url \<and> truthy weaviate_api_key
                    then (case connect_to_weaviate_cloud env (the weaviate_url)
                                 (the weaviate_api_key) w of
                            (Inl e, w1) \<Rightarrow> (Inl e, w1)
                          | (Inr c, w1) \<Rightarrow> (Inr \<lparr>model = m, client = Some c\<rparr>, w1))
                    else (Inr \<lparr>model = m, client = None\<rparr>, w)) of
                (Inl e, w1) \<Rightarrow> (Inl e, w1)
              | (Inr self, w1) \<Rightarrow>
                  (case create_schema env self w1 of
                     (Inl e, w2) \<Rightarrow> (Inl e, w2)
                   | (Inr u, w2) \<Rightarrow> (Inr self, w2))))"

definition embed_text :: "'f embedder \<Rightarrow> string \<Rightarrow> exn + 'f list" where
  "embed_text self text = encode (model self) text"

definition store_embedding ::
    "'f env \<Rightarrow> 'f embedder \<Rightarrow> string \<Rightarrow> string option \<Rightarrow> 'f world
      \<Rightarrow> (exn + string) \<times> 'f world" where
  "store_embedding env self text text_id_arg w =
     (case embed_text self text of
        Inl e \<Rightarrow> (Inl e, w)
      | Inr embedding \<Rightarrow>
          (case (case text_id_arg of
                   None \<Rightarrow> uuid4 env w
                 | Some given \<Rightarrow> (given, w)) of
             (text_id, w1) \<Rightarrow>
               (let data_object = [(''text'', text), (''text_id'', text_id)]
                in case client self of
                     None \<Rightarrow> (Inl AttributeError, w1)
                   | Some c \<Rightarrow>
                       (case collections_get env c TextEmbedding w1 of
                          (Inl e, w2) \<Rightarrow> (Inl e, w2)
                        | (Inr collection, w2) \<Rightarrow>
                            (case data_insert env collection data_object embedding w2 of
                               (Inl e, w3) \<Rightarrow> (Inl e, w3)
                             | (Inr u, w3) \<Rightarrow> (Inr text_id, w3))))))"

text \<open>The loop of \<^verbatim>\<open>batch_store_embeddings\<close> over \<^verbatim>\<open>zip(texts, embeddings)\<close>.\<close>

fun batch_loop ::
    "'f env \<Rightarrow> (string \<times> 'f list) list \<Rightarrow> 'f data_object list \<Rightarrow> string list \<Rightarrow> 'f world
      \<Rightarrow> ('f data_object list \<times> string list) \<times> 'f world" where
  "batch_loop env [] objects_to_insert stored_ids w = ((objects_to_insert, stored_ids), w)"
| "batch_loop env ((text, embedding) # rest) objects_to_insert stored_ids w =
     (case uuid4 env w of
        (text_id, w1) \<Rightarrow>
          batch_loop env rest
            (objects_to_insert @
               [\<lparr>properties = [(''text'', text), (''text_id'', text_id)],
                 vector = embedding\<rparr>])
            (stored_ids @ [text_id]) w1)"

definition batch_store_embeddings ::
    "'f env \<Rightarrow> 'f embedder \<Rightarrow> string list \<Rightarrow> 'f world \<Rightarrow> (exn + string list) \<times> 'f world" where
  "batch_store_embeddings env self texts w =
     (case encode_list (model self) texts of
        Inl e \<Rightarrow> (Inl e, w)
      | Inr embeddings \<Rightarrow>
          (case client self of
             None \<Rightarrow> (Inl AttributeError, w)
           | Some c \<Rightarrow>
               (case collections_get env c TextEmbedding w of
                  (Inl e, w1) \<Rightarrow> (Inl e, w1)
                | (Inr collection, w1) \<Rightarrow>
                    (case batch_loop env (zip texts embeddings) [] [] w1 of
                       ((objects_to_insert, stored_ids), w2) \<Rightarrow>
                         (case data_insert_many env collection objects_to_insert w2 of
                            (Inl e, w3) \<Rightarrow> (Inl e, w3)
                          | (Inr u, w3) \<Rightarrow> (Inr stored_ids, w3))))))"

definition close :: "'f env \<Rightarrow> 'f embedder \<Rightarrow> 'f world \<Rightarrow> (exn + unit) \<times> 'f world" where
  "close env self w =
     (case client self of
        None \<Rightarrow> (Inl AttributeError, w)
      | Some c \<Rightarrow> client_close env c w)"

subsection \<open>The script\<close>

definition sample_texts :: "string list" where
  "sample_texts =
     [''The quick brown fox jumps over the lazy dog.'',
      ''Machine learning is transforming the world of technology.'',
      ''Weaviate is a vector database for storing embeddings.'',
      ''BERT creates contextual word embeddings.'']"

text \<open>
  The \<^verbatim>\<open>try\<close> block: its result is the value of the variable \<^verbatim>\<open>embedder\<close> when the block is
  left, and how it was left.
\<close>

definition main_try ::
    "'f env \<Rightarrow> 'f world \<Rightarrow> ('f embedder option \<times> (exn + unit)) \<times> 'f world" where
  "main_try env w =
     (case BertEmbedder_init env Omitted Omitted Omitted w of
        (Inl e, w1) \<Rightarrow> ((None, Inl e), w1)
      | (Inr embedder, w1) \<Rightarrow>
          (case store_embedding env embedder ''This is a test sentence.'' None w1 of
             (Inl e, w2) \<Rightarrow> ((Some embedder, Inl e), w2)
           | (Inr single_id, w2) \<Rightarrow>
               (case batch_store_embeddings env embedder sample_texts w2 of
                  (Inl e, w3) \<Rightarrow> ((Some embedder, Inl e), w3)
                | (Inr batch_ids, w3) \<Rightarrow> ((Some embedder, Inr ()), w3))))"

text \<open>
  The \<^verbatim>\<open>finally\<close> block closes when \<^verbatim>\<open>embedder\<close> is set; an exception raised there
  replaces the outcome of the \<^verbatim>\<open>try\<close> block.
\<close>

definition main :: "'f env \<Rightarrow> 'f world \<Rightarrow> (exn + unit) \<times> 'f world" where
  "main env w =
     (case main_try env w of
        ((None, outcome), w1) \<Rightarrow> (outcome, w1)
      | ((Some embedder, outcome), w1) \<Rightarrow>
          (case close env embedder w1 of
             (Inl e, w2) \<Rightarrow> (Inl e, w2)
           | (Inr u, w2) \<Rightarrow> (outcome, w2)))"

subsection \<open>Vocabulary of the properties\<close>

text \<open>No call to the store's client raises.\<close>

definition no_fault :: "'f env \<Rightarrow> bool" where
  "no_fault env = (\<forall>h c. fault env h c = None)"

text \<open>The configuration \<^verbatim>\<open>_create_schema\<close> asks the store to create.\<close>

definition schema_config :: collection_config where
  "schema_config = \<lparr>coll_description = ''Text documents with BERT embeddings'',
                     coll_vectorizer = Vectorizer_none,
                     coll_properties = schema_properties\<rparr>"

text \<open>The collection a call names, if it names one.\<close>

fun call_collection :: "'f call \<Rightarrow> string option" where
  "call_collection (Connect u k) = None"
| "call_collection (CollectionsExists c n) = Some n"
| "call_collection (CollectionsCreate c n d v ps) = Some n"
| "call_collection (CollectionsGet c n) = Some n"
| "call_collection (DataInsert c n ps v) = Some n"
| "call_collection (DataInsertMany c n os) = Some n"
| "call_collection (ClientClose c) = None"

definition only_targets :: "string \<Rightarrow> 'f call list \<Rightarrow> bool" where
  "only_targets name cs = list_all (\<lambda>c. call_collection c \<in> {None, Some name}) cs"

definition new_calls :: "'f world \<Rightarrow> 'f world \<Rightarrow> 'f call list" where
  "new_calls w w' = drop (length (calls w)) (calls w')"

subsection \<open>Concrete environments\<close>

text \<open>
  A model that embeds a text as the one-component vector of its length, and a model whose
  every call raises.
\<close>

definition model0 :: "int sentence_transformer" where
  "model0 = \<lparr>encode = (\<lambda>t. Inr [int (length t)]),
             encode_list = (\<lambda>ts. Inr (map (\<lambda>t. [int (length t)]) ts))\<rparr>"

definition model_down :: "int sentence_transformer" where
  "model_down = \<lparr>encode = (\<lambda>t. Inl ''RuntimeError''),
                 encode_list = (\<lambda>ts. Inl ''RuntimeError'')\<rparr>"

text \<open>
  A store that accepts every call; one that refuses the connection; one that accepts the
  connection and fails the existence check. The identifiers generated are
  \<open>''u''\<close>, \<open>''uu''\<close>, \<open>''uuu''\<close>, ...
\<close>

definition env0 :: "int env" where
  "env0 = \<lparr>SentenceTransformer = (\<lambda>n. Inr model0), fault = (\<lambda>h c. None),
           uuid_stream = (\<lambda>n. replicate (Suc n) (CHR ''u''))\<rparr>"

definition env_no_connect :: "int env" where
  "env_no_connect =
     \<lparr>SentenceTransformer = (\<lambda>n. Inr model0),
      fault = (\<lambda>h c. case c of Connect u k \<Rightarrow> Some ''WeaviateStartUpError'' | _ \<Rightarrow> None),
      uuid_stream = (\<lambda>n. replicate (Suc n) (CHR ''u''))\<rparr>"

definition env_schema_down :: "int env" where
  "env_schema_down =
     \<lparr>SentenceTransformer = (\<lambda>n. Inr model0),
      fault = (\<lambda>h c. case c of CollectionsExists cl n \<Rightarrow> Some ''UnexpectedStatusCodeError''
                       | _ \<Rightarrow> None),
      uuid_stream = (\<lambda>n. replicate (Suc n) (CHR ''u''))\<rparr>"

text \<open>
  The world before anything happened; a world with one open connection and the
  collection present; the world the constructor leaves from \<open>world0\<close>; and a world in
  which two identifiers were generated already.
\<close>

definition world0 :: "int world" where
  "world0 = \<lparr>calls = [], collections = [], open_conns = [], next_client = 0, uuid_draws = 0\<rparr>"

definition world1 :: "int world" where
  "world1 = \<lparr>calls = [], collections = [(TextEmbedding, schema_config)], open_conns = [0],
             next_client = 1, uuid_draws = 0\<rparr>"

definition world2 :: "int world" where
  "world2 = \<lparr>calls = [Connect (the default_weaviate_url) (the default_weaviate_api_key),
               CollectionsExists 0 TextEmbedding,
               CollectionsCreate 0 TextEmbedding ''Text documents with BERT embeddings''
                 Vectorizer_none schema_properties],
             collections = [(TextEmbedding, schema_config)], open_conns = [0],
             next_client = 1, uuid_draws = 0\<rparr>"

definition world3 :: "int world" where
  "world3 = \<lparr>calls = [], collections = [(TextEmbedding, schema_config)], open_conns = [0],
             next_client = 1, uuid_draws = 2\<rparr>"

definition emb0 :: "int embedder" where
  "emb0 = \<lparr>model = model0, client = Some 0\<rparr>"

definition emb_down :: "int embedder" where
  "emb_down = \<lparr>model = model_down, client = Some 0\<rparr>"

section \<open>Auxiliary facts\<close>

lemma issue_no_fault: "no_fault env \<Longrightarrow> issue env c w = (None, w\<lparr>calls := calls w @ [c]\<rparr>)"
  by (simp add: issue_def no_fault_def)

text \<open>
  The loop draws one identifier per pair, in order, and builds one object per pair; it
  touches nothing of the world but the count of identifiers drawn.
\<close>

lemma batch_loop_eq:
  "\<exists>new_ids new_objs.
     batch_loop env tes objs ids w =
       ((objs @ new_objs, ids @ new_ids), w\<lparr>uuid_draws := uuid_draws w + length tes\<rparr>) \<and>
     length new_ids = length tes \<and> length new_objs = length tes \<and>
     (\<forall>i<length tes.
        new_ids ! i = uuid_stream env (uuid_draws w + i) \<and>
        new_objs ! i = \<lparr>properties = [(''text'', fst (tes ! i)), (''text_id'', new_ids ! i)],
                        vector = snd (tes ! i)\<rparr>)"
proof (induction tes arbitrary: objs ids w)
  case Nil
  show ?case by simp
next
  case (Cons te tes)
  obtain t emb where te: "te = (t, emb)" by (cases te)
  let ?tid = "uuid_stream env (uuid_draws w)"
  let ?obj = "\<lparr>properties = [(''text'', t), (''text_id'', ?tid)], vector = emb\<rparr>"
  let ?w1 = "w\<lparr>uuid_draws := Suc (uuid_draws w)\<rparr>"
  from Cons.IH[of "objs @ [?obj]" "ids @ [?tid]" ?w1]
  obtain new_ids new_objs where
    eq: "batch_loop env tes (objs @ [?obj]) (ids @ [?tid]) ?w1 =
          (((objs @ [?obj]) @ new_objs, (ids @ [?tid]) @ new_ids),
           ?w1\<lparr>uuid_draws := uuid_draws ?w1 + length tes\<rparr>)"
    and len: "length new_ids = length tes" "length new_objs = length tes"
    and nth: "\<forall>i<length tes.
        new_ids ! i = uuid_stream env (uuid_draws ?w1 + i) \<and>
        new_objs ! i = \<lparr>properties = [(''text'', fst (tes ! i)), (''text_id'', new_ids ! i)],
                        vector = snd (tes ! i)\<rparr>"
    by blast
  have step: "batch_loop env (te # tes) objs ids w =
      ((objs @ (?obj # new_objs), ids @ (?tid # new_ids)),
       w\<lparr>uuid_draws := uuid_draws w + length (te # tes)\<rparr>)"
    using eq by (simp add: te uuid4_def)
  have "\<forall>i<length (te # tes).
        (?tid # new_ids) ! i = uuid_stream env (uuid_draws w + i) \<and>
        (?obj # new_objs) ! i =
          \<lparr>properties = [(''text'', fst ((te # tes) ! i)), (''text_id'', (?tid # new_ids) ! i)],
           vector = snd ((te # tes) ! i)\<rparr>"
  proof (intro allI impI)
    fix i assume "i < length (te # tes)"
    then show "(?tid # new_ids) ! i = uuid_stream env (uuid_draws w + i) \<and>
        (?obj # new_objs) ! i =
          \<lparr>properties = [(''text'', fst ((te # tes) ! i)), (''text_id'', (?tid # new_ids) ! i)],
           vector = snd ((te # tes) ! i)\<rparr>"
      using nth by (cases i) (simp_all add: te)
  qed
  with step len show ?case
    by (intro exI[of _ "?tid # new_ids"] exI[of _ "?obj # new_objs"]) simp
qed

lemma batch_loop_calls: "calls (snd (batch_loop env tes objs ids w)) = calls w"
  using batch_loop_eq[of env tes objs ids w] by auto

lemma batch_loop_result_calls:
  "batch_loop env tes objs ids w = ((objs', ids'), w') \<Longrightarrow> calls w' = calls w"
  using batch_loop_calls[of env tes objs ids w] by simp

subsection \<open>The schema step\<close>

lemma create_schema_absent:
  assumes "client self = Some c" "no_fault env" "map_of (collections w) TextEmbedding = None"
  shows "create_schema env self w =
     (Inr (), w\<lparr>calls := calls w @ [CollectionsExists c TextEmbedding,
                    CollectionsCreate c TextEmbedding ''Text documents with BERT embeddings''
                      Vectorizer_none schema_properties],
               collections := collections w @ [(TextEmbedding, schema_config)]\<rparr>)"
  using assms
  by (simp add: create_schema_def collections_exists_def collections_create_def
      issue_no_fault schema_config_def)

lemma create_schema_present:
  assumes "client self = Some c" "no_fault env" "map_of (collections w) TextEmbedding \<noteq> None"
  shows "create_schema env self w =
     (Inr (), w\<lparr>calls := calls w @ [CollectionsExists c TextEmbedding]\<rparr>)"
  using assms
  by (auto simp add: create_schema_def collections_exists_def issue_no_fault)

lemma create_schema_ensures:
  assumes "client self = Some c" "no_fault env"
  shows "map_of (collections (snd (create_schema env self w))) TextEmbedding \<noteq> None"
proof (cases "map_of (collections w) TextEmbedding = None")
  case True
  show ?thesis by (simp add: create_schema_absent[OF assms True])
next
  case False
  then show ?thesis by (simp add: create_schema_present[OF assms False])
qed

lemma create_schema_again:
  assumes "client self = Some c" "no_fault env"
  shows "collections (snd (create_schema env self (snd (create_schema env self w)))) =
           collections (snd (create_schema env self w))"
proof -
  let ?w1 = "snd (create_schema env self w)"
  have "create_schema env self ?w1 =
          (Inr (), ?w1\<lparr>calls := calls ?w1 @ [CollectionsExists c TextEmbedding]\<rparr>)"
    by (rule create_schema_present[OF assms create_schema_ensures[OF assms]])
  then have "snd (create_schema env self ?w1) =
          ?w1\<lparr>calls := calls ?w1 @ [CollectionsExists c TextEmbedding]\<rparr>"
    by (rule arg_cong[where f = snd, THEN trans]) simp
  then show ?thesis
    by (rule arg_cong[where f = collections, THEN trans]) simp
qed

lemma create_schema_twice_from_absent:
  assumes "client self = Some c" "no_fault env" "map_of (collections w) TextEmbedding = None"
  shows "calls (snd (create_schema env self (snd (create_schema env self w)))) =
     calls w @ [CollectionsExists c TextEmbedding,
                CollectionsCreate c TextEmbedding ''Text documents with BERT embeddings''
                  Vectorizer_none schema_properties,
                CollectionsExists c TextEmbedding]"
proof -
  let ?w1 = "snd (create_schema env self w)"
  have "create_schema env self ?w1 =
          (Inr (), ?w1\<lparr>calls := calls ?w1 @ [CollectionsExists c TextEmbedding]\<rparr>)"
    by (rule create_schema_present[OF assms(1,2) create_schema_ensures[OF assms(1,2)]])
  then have "calls (snd (create_schema env self ?w1)) =
          calls ?w1 @ [CollectionsExists c TextEmbedding]"
    by (rule arg_cong[where f = "\<lambda>r. calls (snd r)", THEN trans]) simp
  then show ?thesis
    by (simp add: create_schema_absent[OF assms])
qed

subsection \<open>The calls an operation adds to the trace\<close>

lemma extends:
  assumes "take (length (calls w)) (calls w') = calls w"
  shows "calls w' = calls w @ new_calls w w'"
  unfolding new_calls_def
  using assms append_take_drop_id[of "length (calls w)" "calls w'"] by simp

lemma init_prefix:
  "take (length (calls w)) (calls (snd (BertEmbedder_init env mn u k w))) = calls w"
  by (simp add: BertEmbedder_init_def create_schema_def collections_exists_def
      collections_create_def connect_to_weaviate_cloud_def issue_def
      Let_def split: option.splits sum.splits)

lemma store_embedding_prefix:
  "take (length (calls w)) (calls (snd (store_embedding env self tx tid w))) = calls w"
  by (simp add: store_embedding_def collections_get_def data_insert_def uuid4_def issue_def
      Let_def split: option.splits sum.splits)

lemma batch_prefix:
  "take (length (calls w)) (calls (snd (batch_store_embeddings env self texts w))) = calls w"
  by (auto simp add: batch_store_embeddings_def collections_get_def data_insert_many_def
      issue_def dest!: batch_loop_result_calls
      split: option.splits sum.splits prod.splits)

lemma init_new_calls:
  "only_targets TextEmbedding (new_calls w (snd (BertEmbedder_init env mn u k w)))"
  by (simp add: BertEmbedder_init_def create_schema_def collections_exists_def
      collections_create_def connect_to_weaviate_cloud_def issue_def
      new_calls_def only_targets_def Let_def split: option.splits sum.splits)

lemma store_embedding_new_calls:
  "only_targets TextEmbedding (new_calls w (snd (store_embedding env self tx tid w)))"
  by (simp add: store_embedding_def collections_get_def data_insert_def uuid4_def issue_def
      new_calls_def only_targets_def Let_def split: option.splits sum.splits)

lemma batch_new_calls:
  "only_targets TextEmbedding (new_calls w (snd (batch_store_embeddings env self texts w)))"
  by (auto simp add: batch_store_embeddings_def collections_get_def data_insert_many_def
      issue_def new_calls_def only_targets_def dest!: batch_loop_result_calls
      split: option.splits sum.splits prod.splits)

lemma init_ensures_collection:
  "BertEmbedder_init env mn u k w = (Inr self, w') \<Longrightarrow>
     map_of (collections w') TextEmbedding \<noteq> None \<and> client self \<noteq> None"
  by (auto simp add: BertEmbedder_init_def create_schema_def collections_exists_def
      collections_create_def connect_to_weaviate_cloud_def issue_def AttributeError_def
      Let_def map_add_def split: option.splits sum.splits if_splits)

lemma store_embedding_inserts:
  "store_embedding env self tx tid w = (Inr i, w') \<Longrightarrow>
     \<exists>c v. new_calls w w' = [CollectionsGet c TextEmbedding,
        DataInsert c TextEmbedding [(''text'', tx), (''text_id'', i)] v]"
  by (auto simp add: store_embedding_def collections_get_def data_insert_def uuid4_def issue_def
      new_calls_def Let_def split: option.splits sum.splits)

lemma batch_inserts:
  "batch_store_embeddings env self texts w = (Inr ids, w') \<Longrightarrow>
     \<exists>c objs. new_calls w w' = [CollectionsGet c TextEmbedding,
        DataInsertMany c TextEmbedding objs]"
  by (auto simp add: batch_store_embeddings_def collections_get_def data_insert_many_def
      issue_def new_calls_def dest!: batch_loop_result_calls
      split: option.splits sum.splits prod.splits)

subsection \<open>Runs in the concrete environments\<close>

lemma init_env0: "BertEmbedder_init env0 Omitted Omitted Omitted world0 = (Inr emb0, world2)"
  by (simp add: BertEmbedder_init_def create_schema_def connect_to_weaviate_cloud_def
      collections_exists_def collections_create_def issue_def env0_def world0_def emb0_def
      world2_def schema_config_def
      default_weaviate_url_def default_weaviate_api_key_def default_model_name_def)

lemma store_env0:
  "store_embedding env0 emb0 ''hello'' None world1 =
     (Inr ''u'', world1\<lparr>calls := [CollectionsGet 0 TextEmbedding,
         DataInsert 0 TextEmbedding [(''text'', ''hello''), (''text_id'', ''u'')] [5]],
       uuid_draws := 1\<rparr>)"
  by (simp add: store_embedding_def embed_text_def collections_get_def data_insert_def
      uuid4_def issue_def env0_def emb0_def model0_def world1_def)

lemma batch_env0:
  "batch_store_embeddings env0 emb0 [''a'', ''b'', ''c''] world1 =
     (Inr [''u'', ''uu'', ''uuu''],
      world1\<lparr>calls := [CollectionsGet 0 TextEmbedding,
         DataInsertMany 0 TextEmbedding
           [\<lparr>properties = [(''text'', ''a''), (''text_id'', ''u'')], vector = [1]\<rparr>,
            \<lparr>properties = [(''text'', ''b''), (''text_id'', ''uu'')], vector = [1]\<rparr>,
            \<lparr>properties = [(''text'', ''c''), (''text_id'', ''uuu'')], vector = [1]\<rparr>]],
       uuid_draws := 3\<rparr>)"
  by (simp add: batch_store_embeddings_def collections_get_def data_insert_many_def
      uuid4_def issue_def env0_def emb0_def model0_def world1_def)

subsection \<open>The script closes the connection of a constructed embedder\<close>

lemma store_embedding_extends:
  "\<exists>cs. calls (snd (store_embedding env self tx tid w)) = calls w @ cs"
  using extends[OF store_embedding_prefix] by blast

lemma batch_extends:
  "\<exists>cs. calls (snd (batch_store_embeddings env self texts w)) = calls w @ cs"
  using extends[OF batch_prefix] by blast

lemma main_closes_when_constructed:
  assumes "BertEmbedder_init env Omitted Omitted Omitted w = (Inr emb, w1)"
  shows "\<exists>c cs. client emb = Some c \<and> calls (snd (main env w)) = calls w1 @ cs @ [ClientClose c]"
proof -
  from init_ensures_collection[OF assms] obtain c where c: "client emb = Some c" by auto
  have cl: "calls (snd (close env emb w')) = calls w' @ [ClientClose c]" for w'
    by (simp add: close_def c client_close_def issue_def split: option.splits)
  obtain r2 w2 where s: "store_embedding env emb ''This is a test sentence.'' None w1 = (r2, w2)"
    by fastforce
  from store_embedding_extends[of env emb "''This is a test sentence.''" None w1] s
  obtain cs2 where e2: "calls w2 = calls w1 @ cs2" by auto
  obtain r3 w3 where b: "batch_store_embeddings env emb sample_texts w2 = (r3, w3)"
    by fastforce
  from batch_extends[of env emb sample_texts w2] b
  obtain cs3 where e3: "calls w3 = calls w2 @ cs3" by auto
  show ?thesis
  proof (cases r2)
    case (Inl e)
    then have "main env w = (case close env emb w2 of (Inl e', w') \<Rightarrow> (Inl e', w')
                               | (Inr u, w') \<Rightarrow> (Inl e, w'))"
      by (simp add: main_def main_try_def assms s)
    then have "calls (snd (main env w)) = calls (snd (close env emb w2))"
      by (simp split: prod.splits sum.splits)
    then show ?thesis using c cl[of w2] e2 by simp
  next
    case (Inr i)
    then have "calls (snd (main env w)) = calls (snd (close env emb w3))"
      by (cases r3) (simp_all add: main_def main_try_def assms s b split: prod.splits sum.splits)
    then show ?thesis using c cl[of w3] e2 e3 by simp
  qed
qed

lemma main_normal_run:
  "fst (main env0 world0) = Inr () \<and> open_conns (snd (main env0 world0)) = [] \<and>
   last (calls (snd (main env0 world0))) = ClientClose 0 \<and>
   length (filter (\<lambda>c. c = ClientClose 0) (calls (snd (main env0 world0)))) = 1"
  by (simp add: main_def main_try_def close_def client_close_def
      BertEmbedder_init_def create_schema_def connect_to_weaviate_cloud_def
      collections_exists_def collections_create_def
      store_embedding_def embed_text_def collections_get_def data_insert_def
      batch_store_embeddings_def data_insert_many_def uuid4_def sample_texts_def
      issue_def env0_def world0_def model0_def
      default_weaviate_url_def default_weaviate_api_key_def default_model_name_def)

section \<open>The claims\<close>

subsection \<open>C1: construction without a store connection\<close>

text \<open>
  C1 says that construction fails with a \<^verbatim>\<open>ConfigurationError\<close> when the endpoint URL or
  the API key is absent. The source has no such exception: with the URL passed as
  \<^verbatim>\<open>None\<close> the constructor skips the connection, and the schema step then raises
  \<^verbatim>\<open>AttributeError\<close> on reading \<^verbatim>\<open>self.client\<close>.
\<close>

theorem init_absent_url_not_ConfigurationError:
  "BertEmbedder_init env0 Omitted (Passed None) Omitted world0 = (Inl AttributeError, world0) \<and>
   fst (BertEmbedder_init env0 Omitted (Passed None) Omitted world0) \<noteq> Inl ConfigurationError"
  by (simp add: BertEmbedder_init_def create_schema_def env0_def default_model_name_def
      default_weaviate_api_key_def AttributeError_def ConfigurationError_def)

text \<open>
  C1, amended: if the URL or the API key in effect is \<^verbatim>\<open>None\<close> or empty, construction
  fails and leaves the world as it was: no call is issued to the store and no connection
  is opened. If both are set and the connection attempt raises (after the model was
  loaded), construction fails with that very exception, the connection attempt is the only
  call issued (so no schema or write call), and no connection is open afterwards.
\<close>

theorem init_fails_without_store_connection:
  "(\<not> truthy (arg_value default_weaviate_url url_arg) \<or>
    \<not> truthy (arg_value default_weaviate_api_key key_arg) \<longrightarrow>
      (\<exists>e. BertEmbedder_init env mn url_arg key_arg w = (Inl e, w))) \<and>
   (SentenceTransformer env (arg_value default_model_name mn) = Inr m \<and>
    truthy (arg_value default_weaviate_url url_arg) \<and>
    truthy (arg_value default_weaviate_api_key key_arg) \<and>
    fault env (calls w)
      (Connect (the (arg_value default_weaviate_url url_arg))
               (the (arg_value default_weaviate_api_key key_arg))) = Some e \<longrightarrow>
      BertEmbedder_init env mn url_arg key_arg w =
        (Inl e, w\<lparr>calls := calls w @
           [Connect (the (arg_value default_weaviate_url url_arg))
                    (the (arg_value default_weaviate_api_key key_arg))]\<rparr>))"
  by (auto simp add: BertEmbedder_init_def create_schema_def connect_to_weaviate_cloud_def
      issue_def Let_def split: sum.splits)

theorem init_fails_without_store_connection_witness:
  "\<not> truthy (arg_value default_weaviate_url (Passed None)) \<and>
   (\<exists>e. BertEmbedder_init env0 Omitted (Passed None) Omitted world0 = (Inl e, world0)) \<and>
   SentenceTransformer env_no_connect (arg_value default_model_name Omitted) = Inr model0 \<and>
   truthy (arg_value default_weaviate_url Omitted) \<and>
   truthy (arg_value default_weaviate_api_key Omitted) \<and>
   fault env_no_connect (calls world0)
     (Connect (the (arg_value default_weaviate_url Omitted))
              (the (arg_value default_weaviate_api_key Omitted))) = Some ''WeaviateStartUpError'' \<and>
   BertEmbedder_init env_no_connect Omitted Omitted Omitted world0 =
     (Inl ''WeaviateStartUpError'',
      world0\<lparr>calls := calls world0 @
        [Connect (the (arg_value default_weaviate_url Omitted))
                 (the (arg_value default_weaviate_api_key Omitted))]\<rparr>)"
  using init_fails_without_store_connection[where url_arg = "Passed None" and key_arg = Omitted
        and env = env0 and mn = Omitted and w = world0]
    init_fails_without_store_connection[where url_arg = Omitted and key_arg = Omitted
        and env = env_no_connect and mn = Omitted and w = world0 and m = model0
        and e = "''WeaviateStartUpError''"]
  by (simp add: env_no_connect_def default_weaviate_url_def default_weaviate_api_key_def)

subsection \<open>C2: the empty batch\<close>

text \<open>
  C2 says that \<^verbatim>\<open>batch_store_embeddings([])\<close> issues no insert call. The source calls
  \<^verbatim>\<open>insert_many\<close> unconditionally: for the empty list the trace holds an
  \<^verbatim>\<open>insert_many\<close> call with no objects.
\<close>

theorem empty_batch_issues_insert_many:
  "DataInsertMany 0 TextEmbedding [] \<in>
     set (calls (snd (batch_store_embeddings env0 emb0 [] world1)))"
  by (simp add: batch_store_embeddings_def collections_get_def data_insert_many_def issue_def
      env0_def emb0_def model0_def world1_def)

text \<open>
  C2, amended: for the empty list, when the model and the store's client do not raise,
  \<^verbatim>\<open>batch_store_embeddings\<close> returns the empty list of identifiers, generates no
  identifier, and issues exactly one \<^verbatim>\<open>insert_many\<close> call, whose list of objects is
  empty.
\<close>

theorem batch_store_embeddings_empty:
  assumes "encode_list (model self) [] = Inr embeddings" "client self = Some c" "no_fault env"
  shows "batch_store_embeddings env self [] w =
     (Inr [], w\<lparr>calls := calls w @ [CollectionsGet c TextEmbedding,
                                       DataInsertMany c TextEmbedding []]\<rparr>)"
  using assms
  by (simp add: batch_store_embeddings_def collections_get_def data_insert_many_def issue_no_fault)

theorem batch_store_embeddings_empty_witness:
  "encode_list (model emb0) [] = Inr [] \<and> client emb0 = Some 0 \<and> no_fault env0 \<and>
   batch_store_embeddings env0 emb0 [] world1 =
     (Inr [], world1\<lparr>calls := calls world1 @ [CollectionsGet 0 TextEmbedding,
                                       DataInsertMany 0 TextEmbedding []]\<rparr>)"
proof -
  have h: "encode_list (model emb0) [] = Inr []" "client emb0 = Some 0" "no_fault env0"
    by (simp_all add: emb0_def model0_def env0_def no_fault_def)
  from batch_store_embeddings_empty[OF h] h show ?thesis by simp
qed

subsection \<open>C3: release of the connection\<close>

text \<open>
  C3 says that the script releases the connection on every exit path, a schema failure
  included. When the connection is established and the existence check of the schema step
  raises, the constructor raises, the variable \<^verbatim>\<open>embedder\<close> is still \<^verbatim>\<open>None\<close> in the
  \<^verbatim>\<open>finally\<close> block, and no close call is issued: the run ends with the connection
  open.
\<close>

theorem main_leaks_connection_on_schema_failure:
  "main env_schema_down world0 =
     (Inl ''UnexpectedStatusCodeError'',
      world0\<lparr>calls := [Connect (the default_weaviate_url) (the default_weaviate_api_key),
                       CollectionsExists 0 TextEmbedding],
             open_conns := [0], next_client := 1\<rparr>)"
  by (simp add: main_def main_try_def BertEmbedder_init_def create_schema_def
      connect_to_weaviate_cloud_def collections_exists_def issue_def env_schema_down_def
      world0_def default_weaviate_url_def default_weaviate_api_key_def default_model_name_def)

subsection \<open>C4: the identifiers of a batch\<close>

text \<open>
  C4: when the model returns one vector per text, the store's client does not raise and
  the identifiers generated during the call are pairwise different,
  \<^verbatim>\<open>batch_store_embeddings\<close> returns one identifier per text, all distinct, the \<open>i\<close>-th
  being the \<open>i\<close>-th identifier generated; and the single \<^verbatim>\<open>insert_many\<close> call carries
  one object per text, in the order of the texts, the \<open>i\<close>-th with text \<open>texts ! i\<close>,
  identifier \<open>ids ! i\<close> and vector \<open>embeddings ! i\<close>.
\<close>

theorem batch_store_embeddings_ids:
  assumes "encode_list (model self) texts = Inr embeddings"
    and "length embeddings = length texts"
    and "client self = Some c"
    and "no_fault env"
    and "inj_on (uuid_stream env) {uuid_draws w ..< uuid_draws w + length texts}"
  shows "\<exists>ids objs.
     batch_store_embeddings env self texts w =
       (Inr ids, w\<lparr>calls := calls w @ [CollectionsGet c TextEmbedding,
                                        DataInsertMany c TextEmbedding objs],
                   uuid_draws := uuid_draws w + length texts\<rparr>) \<and>
     length ids = length texts \<and> length objs = length texts \<and> distinct ids \<and>
     (\<forall>i<length texts.
        ids ! i = uuid_stream env (uuid_draws w + i) \<and>
        objs ! i = \<lparr>properties = [(''text'', texts ! i), (''text_id'', ids ! i)],
                    vector = embeddings ! i\<rparr>)"
proof -
  let ?w1 = "w\<lparr>calls := calls w @ [CollectionsGet c TextEmbedding]\<rparr>"
  let ?tes = "zip texts embeddings"
  have len: "length ?tes = length texts" using assms(2) by simp
  from batch_loop_eq[of env ?tes "[]" "[]" ?w1]
  obtain ids objs where
    loop: "batch_loop env ?tes [] [] ?w1 =
            ((objs, ids), ?w1\<lparr>uuid_draws := uuid_draws ?w1 + length ?tes\<rparr>)"
    and l: "length ids = length ?tes" "length objs = length ?tes"
    and nth: "\<forall>i<length ?tes.
        ids ! i = uuid_stream env (uuid_draws ?w1 + i) \<and>
        objs ! i = \<lparr>properties = [(''text'', fst (?tes ! i)), (''text_id'', ids ! i)],
                    vector = snd (?tes ! i)\<rparr>"
    by auto
  have res: "batch_store_embeddings env self texts w =
       (Inr ids, w\<lparr>calls := calls w @ [CollectionsGet c TextEmbedding,
                                        DataInsertMany c TextEmbedding objs],
                   uuid_draws := uuid_draws w + length texts\<rparr>)"
    using assms(1,3,4) loop len
    by (simp add: batch_store_embeddings_def collections_get_def data_insert_many_def
        issue_no_fault)
  have ids_eq: "ids = map (uuid_stream env) [uuid_draws w ..< uuid_draws w + length texts]"
    using l(1) len nth by (intro nth_equalityI) simp_all
  have "distinct ids"
    unfolding ids_eq using assms(5) by (simp add: distinct_map)
  moreover have "\<forall>i<length texts.
        ids ! i = uuid_stream env (uuid_draws w + i) \<and>
        objs ! i = \<lparr>properties = [(''text'', texts ! i), (''text_id'', ids ! i)],
                    vector = embeddings ! i\<rparr>"
    using nth len assms(2) by simp
  ultimately show ?thesis using res l len by auto
qed

theorem batch_store_embeddings_ids_witness:
  "encode_list (model emb0) [''a'', ''b'', ''c''] = Inr [[1], [1], [1]] \<and>
   length [[1], [1], [1::int]] = length [''a'', ''b'', ''c''] \<and>
   client emb0 = Some 0 \<and> no_fault env0 \<and>
   inj_on (uuid_stream env0)
     {uuid_draws world1 ..< uuid_draws world1 + length [''a'', ''b'', ''c'']} \<and>
   (\<exists>ids objs.
     batch_store_embeddings env0 emb0 [''a'', ''b'', ''c''] world1 =
       (Inr ids, world1\<lparr>calls := calls world1 @ [CollectionsGet 0 TextEmbedding,
                                        DataInsertMany 0 TextEmbedding objs],
                   uuid_draws := uuid_draws world1 + length [''a'', ''b'', ''c'']\<rparr>) \<and>
     length ids = length [''a'', ''b'', ''c''] \<and> length objs = length [''a'', ''b'', ''c''] \<and>
     distinct ids \<and>
     (\<forall>i<length [''a'', ''b'', ''c''].
        ids ! i = uuid_stream env0 (uuid_draws world1 + i) \<and>
        objs ! i = \<lparr>properties = [(''text'', [''a'', ''b'', ''c''] ! i), (''text_id'', ids ! i)],
                    vector = [[1], [1], [1]] ! i\<rparr>))"
proof -
  have h1: "encode_list (model emb0) [''a'', ''b'', ''c''] = Inr [[1], [1], [1]]"
    by (simp add: emb0_def model0_def)
  have h2: "length [[1], [1], [1::int]] = length [''a'', ''b'', ''c'']" by simp
  have h3: "client emb0 = Some 0" by (simp add: emb0_def)
  have h4: "no_fault env0" by (simp add: env0_def no_fault_def)
  have h5: "inj_on (uuid_stream env0)
      {uuid_draws world1 ..< uuid_draws world1 + length [''a'', ''b'', ''c'']}"
    by (simp add: inj_on_def env0_def)
  show ?thesis
    by (intro conjI h1 h2 h3 h4 h5 batch_store_embeddings_ids[OF h1 h2 h3 h4 h5])
qed

subsection \<open>C5: the schema step is idempotent\<close>

text \<open>
  C5: for an embedder with a client, when the store's client does not raise: if the
  collection is absent, \<^verbatim>\<open>_create_schema\<close> checks and then creates it with the two text
  properties \<open>text\<close> and \<open>text_id\<close> and no vectorizer; if it is present, the check is
  the only call and the store is unchanged; the collections after two calls in sequence
  are those after one; and two calls from a store without the collection issue exactly
  one creation call, between two checks.
\<close>

theorem create_schema_idempotent:
  assumes "client self = Some c" "no_fault env"
  shows "(map_of (collections w) TextEmbedding = None \<longrightarrow>
           create_schema env self w =
             (Inr (), w\<lparr>calls := calls w @ [CollectionsExists c TextEmbedding,
                    CollectionsCreate c TextEmbedding ''Text documents with BERT embeddings''
                      Vectorizer_none schema_properties],
               collections := collections w @ [(TextEmbedding, schema_config)]\<rparr>)) \<and>
         (map_of (collections w) TextEmbedding \<noteq> None \<longrightarrow>
           create_schema env self w =
             (Inr (), w\<lparr>calls := calls w @ [CollectionsExists c TextEmbedding]\<rparr>)) \<and>
         collections (snd (create_schema env self (snd (create_schema env self w)))) =
           collections (snd (create_schema env self w)) \<and>
         (map_of (collections w) TextEmbedding = None \<longrightarrow>
           calls (snd (create_schema env self (snd (create_schema env self w)))) =
             calls w @ [CollectionsExists c TextEmbedding,
                CollectionsCreate c TextEmbedding ''Text documents with BERT embeddings''
                  Vectorizer_none schema_properties,
                CollectionsExists c TextEmbedding]) \<and>
         coll_vectorizer schema_config = Vectorizer_none \<and>
         map prop_name (coll_properties schema_config) = [''text'', ''text_id''] \<and>
         map prop_data_type (coll_properties schema_config) = [TEXT, TEXT]"
proof (intro conjI impI)
  show "coll_vectorizer schema_config = Vectorizer_none"
    by (simp add: schema_config_def)
  show "map prop_name (coll_properties schema_config) = [''text'', ''text_id'']"
    by (simp add: schema_config_def schema_properties_def)
  show "map prop_data_type (coll_properties schema_config) = [TEXT, TEXT]"
    by (simp add: schema_config_def schema_properties_def)
qed (rule create_schema_absent[OF assms] create_schema_present[OF assms]
      create_schema_again[OF assms] create_schema_twice_from_absent[OF assms], assumption?)+

theorem create_schema_idempotent_witness:
  "client emb0 = Some 0 \<and> no_fault env0 \<and>
   map_of (collections world0) TextEmbedding = None \<and>
   create_schema env0 emb0 world0 =
     (Inr (), world0\<lparr>calls := calls world0 @ [CollectionsExists 0 TextEmbedding,
                    CollectionsCreate 0 TextEmbedding ''Text documents with BERT embeddings''
                      Vectorizer_none schema_properties],
               collections := collections world0 @ [(TextEmbedding, schema_config)]\<rparr>) \<and>
   calls (snd (create_schema env0 emb0 (snd (create_schema env0 emb0 world0)))) =
     calls world0 @ [CollectionsExists 0 TextEmbedding,
        CollectionsCreate 0 TextEmbedding ''Text documents with BERT embeddings''
          Vectorizer_none schema_properties,
        CollectionsExists 0 TextEmbedding] \<and>
   map_of (collections world1) TextEmbedding \<noteq> None \<and>
   create_schema env0 emb0 world1 =
     (Inr (), world1\<lparr>calls := calls world1 @ [CollectionsExists 0 TextEmbedding]\<rparr>) \<and>
   collections (snd (create_schema env0 emb0 (snd (create_schema env0 emb0 world0)))) =
     collections (snd (create_schema env0 emb0 world0))"
proof -
  have h: "client emb0 = Some 0" "no_fault env0"
    by (simp_all add: emb0_def env0_def no_fault_def)
  have a: "map_of (collections world0) TextEmbedding = None"
    by (simp add: world0_def)
  have p: "map_of (collections world1) TextEmbedding \<noteq> None"
    by (simp add: world1_def)
  from create_schema_idempotent[OF h, of world0] create_schema_idempotent[OF h, of world1] h a p
  show ?thesis by blast
qed

subsection \<open>C6: storing one text\<close>

text \<open>
  C6: when the model embeds the text and the store's client does not raise,
  \<^verbatim>\<open>store_embedding\<close> returns the identifier it used: the one the caller passed, or else
  the next generated one, which differs from every identifier generated before whenever
  the generator has not repeated itself so far. In both cases the only insert call issued
  carries the text, the returned identifier and the vector \<^verbatim>\<open>embed_text\<close> returned for
  the text.
\<close>

theorem store_embedding_id_and_record:
  assumes "embed_text self tx = Inr v"
    and "client self = Some c"
    and "no_fault env"
  shows "(\<forall>given. store_embedding env self tx (Some given) w =
            (Inr given,
             w\<lparr>calls := calls w @ [CollectionsGet c TextEmbedding,
                  DataInsert c TextEmbedding [(''text'', tx), (''text_id'', given)] v]\<rparr>)) \<and>
         store_embedding env self tx None w =
            (Inr (uuid_stream env (uuid_draws w)),
             w\<lparr>calls := calls w @ [CollectionsGet c TextEmbedding,
                  DataInsert c TextEmbedding
                    [(''text'', tx), (''text_id'', uuid_stream env (uuid_draws w))] v],
               uuid_draws := Suc (uuid_draws w)\<rparr>) \<and>
         (inj_on (uuid_stream env) {..uuid_draws w} \<longrightarrow>
            (\<forall>k<uuid_draws w. uuid_stream env (uuid_draws w) \<noteq> uuid_stream env k))"
proof -
  have "\<forall>k<uuid_draws w. uuid_stream env (uuid_draws w) \<noteq> uuid_stream env k"
    if "inj_on (uuid_stream env) {..uuid_draws w}"
    using that by (fastforce dest: inj_onD)
  then show ?thesis
    using assms
    by (simp add: store_embedding_def collections_get_def data_insert_def issue_no_fault uuid4_def)
qed

theorem store_embedding_id_and_record_witness:
  "embed_text emb0 ''hello'' = Inr [5] \<and> client emb0 = Some 0 \<and> no_fault env0 \<and>
   store_embedding env0 emb0 ''hello'' (Some ''my-id'') world3 =
     (Inr ''my-id'',
      world3\<lparr>calls := calls world3 @ [CollectionsGet 0 TextEmbedding,
         DataInsert 0 TextEmbedding [(''text'', ''hello''), (''text_id'', ''my-id'')] [5]]\<rparr>) \<and>
   store_embedding env0 emb0 ''hello'' None world3 =
     (Inr ''uuu'',
      world3\<lparr>calls := calls world3 @ [CollectionsGet 0 TextEmbedding,
         DataInsert 0 TextEmbedding [(''text'', ''hello''), (''text_id'', ''uuu'')] [5]],
        uuid_draws := Suc (uuid_draws world3)\<rparr>) \<and>
   inj_on (uuid_stream env0) {..uuid_draws world3} \<and>
   ''uuu'' \<noteq> uuid_stream env0 0 \<and> ''uuu'' \<noteq> uuid_stream env0 1"
proof -
  have h: "embed_text emb0 ''hello'' = Inr [5]" "client emb0 = Some 0" "no_fault env0"
    by (simp_all add: embed_text_def emb0_def model0_def env0_def no_fault_def)
  have i: "inj_on (uuid_stream env0) {..uuid_draws world3}"
    by (simp add: inj_on_def env0_def)
  have u: "uuid_stream env0 (uuid_draws world3) = ''uuu''"
    by (simp add: env0_def world3_def numeral_2_eq_2)
  have d: "0 < uuid_draws world3" "1 < uuid_draws world3"
    by (simp_all add: world3_def)
  note r = store_embedding_id_and_record[OF h, of world3]
  from r i have "\<forall>k<uuid_draws world3. ''uuu'' \<noteq> uuid_stream env0 k"
    unfolding u by blast
  with d have "''uuu'' \<noteq> uuid_stream env0 0" "''uuu'' \<noteq> uuid_stream env0 1"
    by blast+
  with r h i u show ?thesis by simp
qed

subsection \<open>C8: the configuration defaults\<close>

text \<open>
  C8 says that the source embeds no default credentials and that construction fails when
  no configuration is supplied. Constructing with no argument at all succeeds and connects
  with the endpoint URL and the API key written in the source.
\<close>

theorem init_without_configuration_connects:
  "fst (BertEmbedder_init env0 Omitted Omitted Omitted world0) = Inr emb0 \<and>
   calls (snd (BertEmbedder_init env0 Omitted Omitted Omitted world0)) =
     [Connect ''https://osvcpzz6sjaaloedhjbha.c0.europe-west3.gcp.weaviate.cloud''
        ''N2plUjYzemxTVHhXY1poNl9SZzA2bisxdjZQYTlPTTJvUEI2L0dlVkFEN1d1bHJwOTR1bmFNZTBtRHFNPV92MjAw'',
      CollectionsExists 0 TextEmbedding,
      CollectionsCreate 0 TextEmbedding ''Text documents with BERT embeddings''
        Vectorizer_none schema_properties]"
  by (simp add: BertEmbedder_init_def create_schema_def connect_to_weaviate_cloud_def
      collections_exists_def collections_create_def issue_def env0_def world0_def emb0_def
      default_weaviate_url_def default_weaviate_api_key_def default_model_name_def)

text \<open>
  C8, amended: the endpoint URL and the API key are optional arguments of the
  constructor, and their defaults are literals of the source. With no argument, when the
  model loads and the store's client does not raise, construction succeeds and its first
  call connects with exactly those literals. When the URL or the key is passed as
  \<^verbatim>\<open>None\<close> or as the empty string, construction fails without issuing any call.
\<close>

theorem init_defaults_are_embedded:
  "(SentenceTransformer env default_model_name = Inr m \<and> no_fault env \<longrightarrow>
      (\<exists>w'. BertEmbedder_init env Omitted Omitted Omitted w =
               (Inr \<lparr>model = m, client = Some (next_client w)\<rparr>, w') \<and>
            take 1 (drop (length (calls w)) (calls w')) =
              [Connect ''https://osvcpzz6sjaaloedhjbha.c0.europe-west3.gcp.weaviate.cloud''
                 ''N2plUjYzemxTVHhXY1poNl9SZzA2bisxdjZQYTlPTTJvUEI2L0dlVkFEN1d1bHJwOTR1bmFNZTBtRHFNPV92MjAw''])) \<and>
   (\<not> truthy url \<or> \<not> truthy key \<longrightarrow>
      (\<exists>e. BertEmbedder_init env mn (Passed url) (Passed key) w = (Inl e, w)))"
  by (auto simp add: BertEmbedder_init_def create_schema_def connect_to_weaviate_cloud_def
      collections_exists_def collections_create_def issue_no_fault
      default_weaviate_url_def default_weaviate_api_key_def Let_def split: sum.splits)

theorem init_defaults_are_embedded_witness:
  "SentenceTransformer env0 default_model_name = Inr model0 \<and> no_fault env0 \<and>
   (\<exists>w'. BertEmbedder_init env0 Omitted Omitted Omitted world0 =
               (Inr \<lparr>model = model0, client = Some (next_client world0)\<rparr>, w') \<and>
            take 1 (drop (length (calls world0)) (calls w')) =
              [Connect ''https://osvcpzz6sjaaloedhjbha.c0.europe-west3.gcp.weaviate.cloud''
                 ''N2plUjYzemxTVHhXY1poNl9SZzA2bisxdjZQYTlPTTJvUEI2L0dlVkFEN1d1bHJwOTR1bmFNZTBtRHFNPV92MjAw'']) \<and>
   \<not> truthy (Some '''') \<and>
   (\<exists>e. BertEmbedder_init env0 Omitted (Passed (Some '''')) (Passed (Some ''secret'')) world0 =
          (Inl e, world0))"
proof -
  have h: "SentenceTransformer env0 default_model_name = Inr model0" "no_fault env0"
    by (simp_all add: env0_def no_fault_def)
  from init_defaults_are_embedded[where env = env0 and m = model0 and w = world0
      and url = "Some ''''" and key = "Some ''secret''" and mn = Omitted] h
  show ?thesis by simp
qed

subsection \<open>C9: a failing model leaves the store untouched\<close>

text \<open>
  C9: in \<^verbatim>\<open>store_embedding\<close> and in \<^verbatim>\<open>batch_store_embeddings\<close> the embedding is
  computed first: when the model raises, the operation raises the same exception, returns
  no identifier, and the world is unchanged: no identifier was generated and no call was
  issued to the store.
\<close>

theorem embedding_failure_changes_nothing:
  "(encode (model self) tx = Inl e \<longrightarrow>
      store_embedding env self tx text_id w = (Inl e, w)) \<and>
   (encode_list (model self) texts = Inl e \<longrightarrow>
      batch_store_embeddings env self texts w = (Inl e, w))"
  by (simp add: store_embedding_def embed_text_def batch_store_embeddings_def)

theorem embedding_failure_changes_nothing_witness:
  "encode (model emb_down) ''hello'' = Inl ''RuntimeError'' \<and>
   store_embedding env0 emb_down ''hello'' None world1 = (Inl ''RuntimeError'', world1) \<and>
   encode_list (model emb_down) [''a'', ''b''] = Inl ''RuntimeError'' \<and>
   batch_store_embeddings env0 emb_down [''a'', ''b''] world1 = (Inl ''RuntimeError'', world1)"
  using embedding_failure_changes_nothing[where self = emb_down and tx = "''hello''"
      and e = "''RuntimeError''" and env = env0 and text_id = None and w = world1
      and texts = "[''a'', ''b'']"]
  by (simp add: emb_down_def model_down_def)

subsection \<open>C10: one collection\<close>

text \<open>
  C10: every call that the constructor, \<^verbatim>\<open>store_embedding\<close> and
  \<^verbatim>\<open>batch_store_embeddings\<close> add to the trace, whatever their outcome, names the
  collection \<open>TextEmbedding\<close> or no collection at all. When the constructor returns an
  embedder, the collection \<open>TextEmbedding\<close> exists in the store. When a write returns,
  the calls it added are the lookup of \<open>TextEmbedding\<close> and one insert into it.
\<close>

theorem operations_target_TextEmbedding:
  "(\<exists>cs. calls (snd (BertEmbedder_init env mn u k w)) = calls w @ cs \<and>
          only_targets TextEmbedding cs) \<and>
   (BertEmbedder_init env mn u k w = (Inr self, w1) \<longrightarrow>
      map_of (collections w1) TextEmbedding \<noteq> None) \<and>
   (\<exists>cs. calls (snd (store_embedding env emb tx tid w)) = calls w @ cs \<and>
          only_targets TextEmbedding cs) \<and>
   (store_embedding env emb tx tid w = (Inr i, w2) \<longrightarrow>
      (\<exists>c v. calls w2 = calls w @ [CollectionsGet c TextEmbedding,
         DataInsert c TextEmbedding [(''text'', tx), (''text_id'', i)] v])) \<and>
   (\<exists>cs. calls (snd (batch_store_embeddings env emb texts w)) = calls w @ cs \<and>
          only_targets TextEmbedding cs) \<and>
   (batch_store_embeddings env emb texts w = (Inr ids, w3) \<longrightarrow>
      (\<exists>c objs. calls w3 = calls w @ [CollectionsGet c TextEmbedding,
         DataInsertMany c TextEmbedding objs]))"
proof (intro conjI impI)
  show "\<exists>cs. calls (snd (BertEmbedder_init env mn u k w)) = calls w @ cs \<and>
          only_targets TextEmbedding cs"
    using extends[OF init_prefix] init_new_calls by blast
  show "\<exists>cs. calls (snd (store_embedding env emb tx tid w)) = calls w @ cs \<and>
          only_targets TextEmbedding cs"
    using extends[OF store_embedding_prefix] store_embedding_new_calls by blast
  show "\<exists>cs. calls (snd (batch_store_embeddings env emb texts w)) = calls w @ cs \<and>
          only_targets TextEmbedding cs"
    using extends[OF batch_prefix] batch_new_calls by blast
next
  assume "BertEmbedder_init env mn u k w = (Inr self, w1)"
  then show "map_of (collections w1) TextEmbedding \<noteq> None"
    using init_ensures_collection by blast
next
  assume a: "store_embedding env emb tx tid w = (Inr i, w2)"
  from store_embedding_inserts[OF a] obtain c v where
    n: "new_calls w w2 = [CollectionsGet c TextEmbedding,
        DataInsert c TextEmbedding [(''text'', tx), (''text_id'', i)] v]" by blast
  have "take (length (calls w)) (calls w2) = calls w"
    using store_embedding_prefix[of w env emb tx tid] a by simp
  from extends[OF this] n
  show "\<exists>c v. calls w2 = calls w @ [CollectionsGet c TextEmbedding,
         DataInsert c TextEmbedding [(''text'', tx), (''text_id'', i)] v]" by auto
next
  assume a: "batch_store_embeddings env emb texts w = (Inr ids, w3)"
  from batch_inserts[OF a] obtain c objs where
    n: "new_calls w w3 = [CollectionsGet c TextEmbedding, DataInsertMany c TextEmbedding objs]"
    by blast
  have "take (length (calls w)) (calls w3) = calls w"
    using batch_prefix[of w env emb texts] a by simp
  from extends[OF this] n
  show "\<exists>c objs. calls w3 = calls w @ [CollectionsGet c TextEmbedding,
         DataInsertMany c TextEmbedding objs]" by auto
qed

theorem operations_target_TextEmbedding_witness:
  "BertEmbedder_init env0 Omitted Omitted Omitted world0 = (Inr emb0, world2) \<and>
   map_of (collections world2) TextEmbedding \<noteq> None \<and>
   store_embedding env0 emb0 ''hello'' None world1 =
     (Inr ''u'', world1\<lparr>calls := [CollectionsGet 0 TextEmbedding,
         DataInsert 0 TextEmbedding [(''text'', ''hello''), (''text_id'', ''u'')] [5]],
       uuid_draws := 1\<rparr>) \<and>
   batch_store_embeddings env0 emb0 [''a'', ''b'', ''c''] world1 =
     (Inr [''u'', ''uu'', ''uuu''],
      world1\<lparr>calls := [CollectionsGet 0 TextEmbedding,
         DataInsertMany 0 TextEmbedding
           [\<lparr>properties = [(''text'', ''a''), (''text_id'', ''u'')], vector = [1]\<rparr>,
            \<lparr>properties = [(''text'', ''b''), (''text_id'', ''uu'')], vector = [1]\<rparr>,
            \<lparr>properties = [(''text'', ''c''), (''text_id'', ''uuu'')], vector = [1]\<rparr>]],
       uuid_draws := 3\<rparr>) \<and>
   (\<exists>cs. calls (snd (store_embedding env0 emb0 ''hello'' None world1)) = calls world1 @ cs \<and>
          only_targets TextEmbedding cs)"
  using operations_target_TextEmbedding[where env = env0 and mn = Omitted and u = Omitted
      and k = Omitted and w = world0 and self = emb0 and ?w1.0 = world2]
    operations_target_TextEmbedding[where env = env0 and emb = emb0 and tx = "''hello''"
      and tid = None and w = world1 and texts = "[''a'', ''b'', ''c'']"]
    init_env0 store_env0 batch_env0
  by simp

end
